theory Spec2Isabelle
  imports Complex_Main
begin

section \<open>JavaScript numbers\<close>

text \<open>
  A JavaScript number is modelled as an exact real or one of the three special values.
  Rounding is not modelled: arithmetic on finite values is exact. The special values are
  kept because the code tests for them (\<^verbatim>\<open>Number.isFinite\<close>) and because a division
  by zero produces them instead of failing.
\<close>

datatype js_num = Num real | PosInfinity | NegInfinity | NaN

fun Number_isFinite :: "js_num \<Rightarrow> bool" where
  "Number_isFinite (Num x) = True"
| "Number_isFinite PosInfinity = False"
| "Number_isFinite NegInfinity = False"
| "Number_isFinite NaN = False"

text \<open>\<^verbatim>\<open>a / b\<close> on two finite numbers; the divisors of this program are never \<^verbatim>\<open>-0\<close>.\<close>

definition js_div :: "real \<Rightarrow> real \<Rightarrow> js_num" where
  "js_div a b =
     (if b \<noteq> 0 then Num (a / b)
      else if a = 0 then NaN
      else if 0 < a then PosInfinity
      else NegInfinity)"

text \<open>\<^verbatim>\<open>Math.min(a, x)\<close> and \<^verbatim>\<open>Math.max(a, x)\<close> with a finite first argument.\<close>

fun Math_min :: "real \<Rightarrow> js_num \<Rightarrow> js_num" where
  "Math_min a (Num x) = Num (min a x)"
| "Math_min a PosInfinity = Num a"
| "Math_min a NegInfinity = NegInfinity"
| "Math_min a NaN = NaN"

fun Math_max :: "real \<Rightarrow> js_num \<Rightarrow> js_num" where
  "Math_max a (Num x) = Num (max a x)"
| "Math_max a PosInfinity = PosInfinity"
| "Math_max a NegInfinity = Num a"
| "Math_max a NaN = NaN"

text \<open>Whether a number is a finite value between two bounds.\<close>

fun js_between :: "real \<Rightarrow> real \<Rightarrow> js_num \<Rightarrow> bool" where
  "js_between lo hi (Num x) = (lo \<le> x \<and> x \<le> hi)"
| "js_between lo hi PosInfinity = False"
| "js_between lo hi NegInfinity = False"
| "js_between lo hi NaN = False"

section \<open>The Hero component: double-video crossfade loop\<close>

subsection \<open>Data\<close>

text \<open>\<^verbatim>\<open>activeIdxRef: 0 | 1\<close>; index 0 is video A with wrapper A, index 1 is video B.\<close>

datatype idx = Idx0 | Idx1

fun flip :: "idx \<Rightarrow> idx" where
  "flip Idx0 = Idx1"
| "flip Idx1 = Idx0"

text \<open>
  The part of an \<^verbatim>\<open>HTMLVideoElement\<close> the component reads and writes. \<open>rate\<close> is the
  element's \<^verbatim>\<open>playbackRate\<close> property. \<open>autoplay\<close> is the markup's \<^verbatim>\<open>autoPlay\<close>
  attribute and \<open>canAutoplay\<close> the element's can-autoplay flag, which \<^verbatim>\<open>play()\<close> and
  \<^verbatim>\<open>pause()\<close> clear.
\<close>

record video =
  duration :: js_num
  currentTime :: real
  paused :: bool
  loop :: bool
  muted :: bool
  playsInline :: bool
  rate :: real
  autoplay :: bool
  canAutoplay :: bool

text \<open>The calls the component makes on the browser, in the order it makes them.\<close>

datatype call =
    PerformanceNow real
  | Pause idx
  | Seek idx real
  | Play idx
  | SetOpacity idx real
  | RequestAnimationFrame nat

text \<open>
  The two videos, the opacity of the two wrapper layers (\<^verbatim>\<open>wa.style.opacity\<close>,
  \<^verbatim>\<open>wb.style.opacity\<close>, kept as the number that is written), the four refs of the
  component, the \<^verbatim>\<open>loadedmetadata\<close> listeners, and the browser's list of pending
  animation-frame callbacks (every one of them is \<^verbatim>\<open>tick\<close>).
\<close>

record hero =
  videoA :: video
  videoB :: video
  wrapA :: real
  wrapB :: real
  activeIdxRef :: idx
  isFadingRef :: bool
  fadeStartRef :: real
  rafRef :: "nat option"
  onMetaA :: bool
  onMetaB :: bool
  frameCallbacks :: "nat list"
  nextHandle :: nat
  calls :: "call list"

text \<open>
  The two settings of the effect. The component fixes them
  (\<^verbatim>\<open>const playbackRate = 0.75; const fadeSeconds = 1.4\<close>); the functions below take them
  as a parameter. Both are positive.
\<close>

record settings =
  playbackRate :: real
  fadeSeconds :: real

definition hero_settings :: settings where
  "hero_settings = \<lparr>playbackRate = 0.75, fadeSeconds = 1.4\<rparr>"

text \<open>
  What the browser supplies to one run of \<^verbatim>\<open>tick\<close>: the value \<^verbatim>\<open>performance.now()\<close>
  returns in the trigger block (if it is called there), the value it returns in the progress
  block, and whether \<^verbatim>\<open>play()\<close> is allowed.
\<close>

record frame =
  nowTrigger :: real
  nowProgress :: real
  playAllowed :: bool

subsection \<open>Element access\<close>

fun video_of :: "idx \<Rightarrow> hero \<Rightarrow> video" where
  "video_of Idx0 st = videoA st"
| "video_of Idx1 st = videoB st"

fun video_upd :: "idx \<Rightarrow> (video \<Rightarrow> video) \<Rightarrow> hero \<Rightarrow> hero" where
  "video_upd Idx0 g st = st\<lparr>videoA := g (videoA st)\<rparr>"
| "video_upd Idx1 g st = st\<lparr>videoB := g (videoB st)\<rparr>"

fun opacity_of :: "idx \<Rightarrow> hero \<Rightarrow> real" where
  "opacity_of Idx0 st = wrapA st"
| "opacity_of Idx1 st = wrapB st"

definition called :: "call list \<Rightarrow> hero \<Rightarrow> hero" where
  "called cs st = st\<lparr>calls := calls st @ cs\<rparr>"

text \<open>\<^verbatim>\<open>w.style.opacity = String(x)\<close>\<close>

fun set_opacity :: "idx \<Rightarrow> real \<Rightarrow> hero \<Rightarrow> hero" where
  "set_opacity Idx0 x st = called [SetOpacity Idx0 x] (st\<lparr>wrapA := x\<rparr>)"
| "set_opacity Idx1 x st = called [SetOpacity Idx1 x] (st\<lparr>wrapB := x\<rparr>)"

subsection \<open>Browser operations\<close>

text \<open>
  \<^verbatim>\<open>v.pause()\<close> pauses and clears the can-autoplay flag. \<^verbatim>\<open>v.play()\<close> does nothing
  but reject its promise when playback is not allowed, and otherwise starts the element.
  Neither call nor the \<^verbatim>\<open>currentTime\<close> setter throws.
\<close>

definition pause :: "idx \<Rightarrow> hero \<Rightarrow> hero" where
  "pause i st = called [Pause i] (video_upd i (\<lambda>v. v\<lparr>paused := True, canAutoplay := False\<rparr>) st)"

definition seek :: "idx \<Rightarrow> real \<Rightarrow> hero \<Rightarrow> hero" where
  "seek i x st = called [Seek i x] (video_upd i (\<lambda>v. v\<lparr>currentTime := x\<rparr>) st)"

definition play :: "bool \<Rightarrow> idx \<Rightarrow> hero \<Rightarrow> hero" where
  "play allowed i st =
     called [Play i]
       (if allowed then video_upd i (\<lambda>v. v\<lparr>paused := False, canAutoplay := False\<rparr>) st else st)"

text \<open>\<^verbatim>\<open>requestAnimationFrame(tick)\<close>: queues the callback and returns its handle.\<close>

definition requestAnimationFrame :: "hero \<Rightarrow> hero" where
  "requestAnimationFrame st =
     called [RequestAnimationFrame (nextHandle st)]
       (st\<lparr>rafRef := Some (nextHandle st),
           frameCallbacks := frameCallbacks st @ [nextHandle st],
           nextHandle := Suc (nextHandle st)\<rparr>)"

subsection \<open>The helpers of the effect\<close>

definition applyRate :: "settings \<Rightarrow> idx \<Rightarrow> hero \<Rightarrow> hero" where
  "applyRate cfg i st = video_upd i (\<lambda>v. v\<lparr>rate := playbackRate cfg\<rparr>) st"

definition setInitialVis :: "hero \<Rightarrow> hero" where
  "setInitialVis st = set_opacity Idx1 0 (set_opacity Idx0 1 st)"

text \<open>\<^verbatim>\<open>safePlay\<close>: a rejected \<^verbatim>\<open>play()\<close> is caught and ignored.\<close>

definition safePlay :: "bool \<Rightarrow> idx \<Rightarrow> hero \<Rightarrow> hero" where
  "safePlay allowed i st = play allowed i st"

definition resetVideo :: "idx \<Rightarrow> hero \<Rightarrow> hero" where
  "resetVideo i st = seek i 0 (pause i st)"

text \<open>
  \<^verbatim>\<open>startOther\<close> is called as \<^verbatim>\<open>void startOther(other)\<close>: it runs up to the
  \<^verbatim>\<open>play()\<close> call inside the caller, and the caller never awaits the rest.
\<close>

definition startOther :: "bool \<Rightarrow> idx \<Rightarrow> hero \<Rightarrow> hero" where
  "startOther allowed other st = safePlay allowed other (resetVideo other st)"

subsection \<open>tick\<close>

definition triggerAt :: "settings \<Rightarrow> real \<Rightarrow> real" where
  "triggerAt cfg dur = max 0 (dur - fadeSeconds cfg)"

text \<open>
  The block under \<^verbatim>\<open>// Crossfade trigger\<close>. \<open>i\<close> is the active index read at the top of
  \<^verbatim>\<open>tick\<close>, \<open>dur\<close> and \<open>ct\<close> the active video's duration and position read
  there. \<^verbatim>\<open>Number.isFinite(dur) && dur > 0\<close> holds only of a positive finite number.
\<close>

definition crossfadeTrigger :: "settings \<Rightarrow> frame \<Rightarrow> idx \<Rightarrow> js_num \<Rightarrow> real \<Rightarrow> hero \<Rightarrow> hero" where
  "crossfadeTrigger cfg f i dur ct st =
     (if \<not> isFadingRef st \<and> Number_isFinite dur then
        (case dur of
           Num d \<Rightarrow>
             if 0 < d then
               (if triggerAt cfg d \<le> ct then
                  startOther (playAllowed f) (flip i)
                    (called [PerformanceNow (nowTrigger f)]
                       (st\<lparr>isFadingRef := True, fadeStartRef := nowTrigger f\<rparr>))
                else st)
             else st
         | PosInfinity \<Rightarrow> st
         | NegInfinity \<Rightarrow> st
         | NaN \<Rightarrow> st)
      else st)"

text \<open>\<^verbatim>\<open>t\<close>, \<^verbatim>\<open>p\<close> and \<^verbatim>\<open>eased\<close> of the progress block.\<close>

definition fade_t :: "settings \<Rightarrow> real \<Rightarrow> real \<Rightarrow> real" where
  "fade_t cfg now start = (now - start) / (fadeSeconds cfg * 1000)"

definition fade_p :: "settings \<Rightarrow> real \<Rightarrow> real \<Rightarrow> real" where
  "fade_p cfg now start = min 1 (max 0 (fade_t cfg now start))"

definition fade_eased :: "settings \<Rightarrow> real \<Rightarrow> real \<Rightarrow> real" where
  "fade_eased cfg now start =
     (let p = fade_p cfg now start in p * p * (3 - 2 * p))"

text \<open>The block under \<^verbatim>\<open>// Crossfade progress\<close>, with the role swap at its end.\<close>

definition crossfadeProgress :: "settings \<Rightarrow> frame \<Rightarrow> idx \<Rightarrow> hero \<Rightarrow> hero" where
  "crossfadeProgress cfg f i st =
     (if isFadingRef st then
        (let st1 = called [PerformanceNow (nowProgress f)] st;
             p = fade_p cfg (nowProgress f) (fadeStartRef st1);
             eased = fade_eased cfg (nowProgress f) (fadeStartRef st1);
             st2 = set_opacity (flip i) eased (set_opacity i (1 - eased) st1)
         in if 1 \<le> p then
              (resetVideo i st2)\<lparr>activeIdxRef := flip i, isFadingRef := False\<rparr>
            else st2)
      else st)"

definition tick :: "settings \<Rightarrow> frame \<Rightarrow> hero \<Rightarrow> hero" where
  "tick cfg f st =
     (let i = activeIdxRef st;
          dur = duration (video_of i st);
          ct = currentTime (video_of i st)
      in requestAnimationFrame
           (crossfadeProgress cfg f i (crossfadeTrigger cfg f i dur ct st)))"

text \<open>The state in which \<^verbatim>\<open>tick\<close> reaches its progress block.\<close>

definition tick_trigger :: "settings \<Rightarrow> frame \<Rightarrow> hero \<Rightarrow> hero" where
  "tick_trigger cfg f st =
     crossfadeTrigger cfg f (activeIdxRef st)
       (duration (video_of (activeIdxRef st) st))
       (currentTime (video_of (activeIdxRef st) st)) st"

subsection \<open>The effect\<close>

text \<open>
  The body of \<^verbatim>\<open>useEffect\<close>. \<open>refsAttached\<close> says that none of the four element refs
  is null; \<open>allowed\<close> is whether \<^verbatim>\<open>play()\<close> is allowed.
\<close>

definition heroEffect :: "settings \<Rightarrow> bool \<Rightarrow> bool \<Rightarrow> bool \<Rightarrow> hero \<Rightarrow> hero" where
  "heroEffect cfg shouldReduceMotion refsAttached allowed st =
     (if \<not> refsAttached then st
      else
        (let st1 = video_upd Idx1 (\<lambda>v. v\<lparr>muted := True\<rparr>)
                     (video_upd Idx0 (\<lambda>v. v\<lparr>muted := True\<rparr>) st);
             st2 = video_upd Idx1 (\<lambda>v. v\<lparr>playsInline := True\<rparr>)
                     (video_upd Idx0 (\<lambda>v. v\<lparr>playsInline := True\<rparr>) st1)
         in if shouldReduceMotion then
              (let r1 = video_upd Idx0 (\<lambda>v. v\<lparr>loop := True\<rparr>) st2;
                   r2 = video_upd Idx1 (\<lambda>v. v\<lparr>loop := False\<rparr>) r1;
                   r3 = set_opacity Idx0 1 r2;
                   r4 = set_opacity Idx1 0 r3;
                   r5 = video_upd Idx0 (\<lambda>v. v\<lparr>rate := playbackRate cfg\<rparr>) r4
               in play allowed Idx0 r5)
            else
              (let n1 = video_upd Idx0 (\<lambda>v. v\<lparr>loop := False\<rparr>) st2;
                   n2 = video_upd Idx1 (\<lambda>v. v\<lparr>loop := False\<rparr>) n1;
                   n3 = applyRate cfg Idx0 n2;
                   n4 = applyRate cfg Idx1 n3;
                   n5 = n4\<lparr>onMetaA := True, onMetaB := True\<rparr>;
                   n6 = setInitialVis n5;
                   n7 = resetVideo Idx1 n6;
                   n8 = safePlay allowed Idx0 n7
               in requestAnimationFrame n8)))"

text \<open>
  Each \<^verbatim>\<open><video>\<close> of the markup: \<^verbatim>\<open>autoPlay muted playsInline preload="metadata"\<close>,
  not yet loaded. The component as first rendered: wrapper A at opacity 1, wrapper B at
  opacity 0, the refs at their initial values.
\<close>

definition markup_video :: video where
  "markup_video =
     \<lparr>duration = NaN, currentTime = 0, paused = True, loop = False, muted = True,
      playsInline = True, rate = 1, autoplay = True, canAutoplay = True\<rparr>"

definition hero_rendered :: hero where
  "hero_rendered =
     \<lparr>videoA = markup_video, videoB = markup_video, wrapA = 1, wrapB = 0,
      activeIdxRef = Idx0, isFadingRef = False, fadeStartRef = 0, rafRef = None,
      onMetaA = False, onMetaB = False, frameCallbacks = [], nextHandle = 1, calls = []\<rparr>"

subsection \<open>The browser\<close>

text \<open>
  What the browser does to the component between its own steps: a display refresh runs the
  pending animation-frame callbacks; a video's metadata loads (its duration becomes known
  and a registered \<^verbatim>\<open>loadedmetadata\<close> listener runs); a video has enough data to play
  (an element with the \<^verbatim>\<open>autoplay\<close> attribute that is paused and whose can-autoplay
  flag is still set starts playing); a playing video's position advances.
\<close>

datatype browser_event =
    AnimationFrame frame
  | LoadedMetadata idx js_num
  | EnoughData idx
  | Playback idx real

fun listening :: "idx \<Rightarrow> hero \<Rightarrow> bool" where
  "listening Idx0 st = onMetaA st"
| "listening Idx1 st = onMetaB st"

fun browser_step :: "settings \<Rightarrow> browser_event \<Rightarrow> hero \<Rightarrow> hero" where
  "browser_step cfg (AnimationFrame f) st =
     fold (\<lambda>h. tick cfg f) (frameCallbacks st) (st\<lparr>frameCallbacks := []\<rparr>)"
| "browser_step cfg (LoadedMetadata i d) st =
     (let st1 = video_upd i (\<lambda>v. v\<lparr>duration := d\<rparr>) st
      in if listening i st1 then applyRate cfg i st1 else st1)"
| "browser_step cfg (EnoughData i) st =
     video_upd i
       (\<lambda>v. if canAutoplay v \<and> paused v \<and> autoplay v then v\<lparr>paused := False\<rparr> else v) st"
| "browser_step cfg (Playback i x) st =
     video_upd i (\<lambda>v. if paused v then v else v\<lparr>currentTime := x\<rparr>) st"

fun run :: "settings \<Rightarrow> browser_event list \<Rightarrow> hero \<Rightarrow> hero" where
  "run cfg [] st = st"
| "run cfg (e # es) st = run cfg es (browser_step cfg e st)"

text \<open>Whether a list of browser events holds no display refresh.\<close>

fun no_frame :: "browser_event list \<Rightarrow> bool" where
  "no_frame [] = True"
| "no_frame (AnimationFrame f # es) = False"
| "no_frame (LoadedMetadata i d # es) = no_frame es"
| "no_frame (EnoughData i # es) = no_frame es"
| "no_frame (Playback i x # es) = no_frame es"

subsection \<open>Example states\<close>

text \<open>
  The component mounted without reduced motion, both videos loaded with a duration of ten
  seconds, video A played to position \<open>x\<close>, at the moment the browser calls \<^verbatim>\<open>tick\<close>.
\<close>

definition example_playing :: "settings \<Rightarrow> real \<Rightarrow> hero" where
  "example_playing cfg x =
     (run cfg [LoadedMetadata Idx0 (Num 10), LoadedMetadata Idx1 (Num 10), Playback Idx0 x]
        (heroEffect cfg False True True hero_rendered))\<lparr>frameCallbacks := []\<rparr>"

text \<open>
  The same component one update later, when that update found video A at position 9 and
  began a fade at clock reading 1000.
\<close>

definition example_fading :: "settings \<Rightarrow> hero" where
  "example_fading cfg =
     (tick cfg \<lparr>nowTrigger = 1000, nowProgress = 1000, playAllowed = True\<rparr>
        (example_playing cfg 9))\<lparr>frameCallbacks := []\<rparr>"

subsection \<open>The crossfade as the specification words it\<close>

definition clamp :: "real \<Rightarrow> real \<Rightarrow> real \<Rightarrow> real" where
  "clamp x lo hi = (if x < lo then lo else if hi < x then hi else x)"

definition smoothstep :: "real \<Rightarrow> real" where
  "smoothstep p = p\<^sup>2 * (3 - 2 * p)"

definition spec_p :: "real \<Rightarrow> real \<Rightarrow> real \<Rightarrow> real" where
  "spec_p fadeDurationSeconds now fadeStartTime =
     clamp ((now - fadeStartTime) / (fadeDurationSeconds * 1000)) 0 1"

definition spec_triggerPoint :: "real \<Rightarrow> real \<Rightarrow> real" where
  "spec_triggerPoint dur fadeDurationSeconds =
     (if dur - fadeDurationSeconds < 0 then 0 else dur - fadeDurationSeconds)"

section \<open>Scroll parallax\<close>

text \<open>The two fields of \<^verbatim>\<open>getBoundingClientRect()\<close> the calculators read.\<close>

record DOMRect =
  rect_top :: real
  rect_height :: real

text \<open>
  \<^verbatim>\<open>updateParallax\<close> of \<^verbatim>\<open>useScrollParallax\<close>, up to \<^verbatim>\<open>progress\<close>: nothing when the
  card is not visible, and otherwise the progress computed from \<^verbatim>\<open>window.innerHeight\<close>
  and the card's rectangle.
\<close>

definition useScrollParallax_updateParallax :: "bool \<Rightarrow> real \<Rightarrow> DOMRect \<Rightarrow> js_num option" where
  "useScrollParallax_updateParallax isVisible innerHeight cardRect =
     (if \<not> isVisible then None
      else
        (let viewportHeight = innerHeight;
             viewportCenter = viewportHeight / 2;
             cardCenter = rect_top cardRect + rect_height cardRect / 2;
             rawProgress = js_div (viewportCenter - cardCenter) viewportHeight;
             progress = Math_max (- 1) (Math_min 1 rawProgress)
         in Some progress))"

text \<open>\<^verbatim>\<open>updateParallax\<close> of \<^verbatim>\<open>useParallaxSection\<close>, up to \<^verbatim>\<open>progress\<close>.\<close>

definition useParallaxSection_updateParallax :: "bool \<Rightarrow> real \<Rightarrow> DOMRect \<Rightarrow> js_num option" where
  "useParallaxSection_updateParallax isVisible innerHeight rect =
     (if \<not> isVisible then None
      else
        (let viewportHeight = innerHeight;
             viewportCenter = viewportHeight / 2;
             sectionCenter = rect_top rect + rect_height rect / 2;
             rawProgress = js_div (viewportCenter - sectionCenter) viewportHeight;
             progress = Math_max (- 1) (Math_min 1 rawProgress)
         in Some progress))"

text \<open>The progress as the specification words it, for a viewport of non-zero height.\<close>

definition spec_progress :: "real \<Rightarrow> DOMRect \<Rightarrow> real" where
  "spec_progress viewportHeight r =
     clamp ((viewportHeight / 2 - (rect_top r + rect_height r / 2)) / viewportHeight) (- 1) 1"

section \<open>Lead submission\<close>

datatype service = Workforce_rental | Supplies | Welding_coordination

record formData =
  name :: string
  email :: string
  phone :: "string option"
  service :: service
  partNumber :: "string option"
  message :: "string option"
  attachment :: "string list option"

text \<open>
  What \<^verbatim>\<open>sendToKommo\<close> does before it settles, and how its promise settles.
\<close>

datatype effect =
    ConsoleLog string formData
  | SetTimeout nat
  | ConsoleError string

datatype 'a settled = Fulfilled 'a | Rejected string

text \<open>
  The \<^verbatim>\<open>try\<close> block holds one statement, \<^verbatim>\<open>return true\<close> (the \<^verbatim>\<open>fetch\<close> is
  commented out), so its outcome is that value; the \<^verbatim>\<open>catch\<close> branch logs and
  returns \<^verbatim>\<open>false\<close>.
\<close>

definition sendToKommo_try :: "formData \<Rightarrow> string + bool" where
  "sendToKommo_try d = Inr True"

definition sendToKommo :: "formData \<Rightarrow> effect list \<times> bool settled" where
  "sendToKommo d =
     (let before = [ConsoleLog ''Sending data to Kommo CRM integration...'' d, SetTimeout 1500]
      in case sendToKommo_try d of
           Inr v \<Rightarrow> (before, Fulfilled v)
         | Inl err \<Rightarrow> (before @ [ConsoleError ''Error sending lead to Kommo:''], Fulfilled False))"

section \<open>Properties of the crossfade\<close>

subsection \<open>Easing\<close>

lemma fade_p_clamp: "fade_p cfg now start = spec_p (fadeSeconds cfg) now start"
  by (simp add: fade_p_def fade_t_def spec_p_def clamp_def min_def max_def)

lemma fade_eased_smoothstep:
  "fade_eased cfg now start = smoothstep (spec_p (fadeSeconds cfg) now start)"
  by (simp add: fade_eased_def Let_def fade_p_clamp smoothstep_def power2_eq_square)

lemma spec_p_range: "0 \<le> spec_p fs n s \<and> spec_p fs n s \<le> 1"
  by (simp add: spec_p_def clamp_def)

lemma spec_p_mono:
  assumes "0 < fs" "n \<le> n'"
  shows "spec_p fs n s \<le> spec_p fs n' s"
proof -
  have "(n - s) / (fs * 1000) \<le> (n' - s) / (fs * 1000)"
    using assms by (intro divide_right_mono) simp_all
  then show ?thesis by (simp add: spec_p_def clamp_def)
qed

lemma smoothstep_range:
  assumes "0 \<le> p" "p \<le> 1"
  shows "0 \<le> smoothstep p" "smoothstep p \<le> 1"
proof -
  have "0 \<le> 3 - 2 * p" using assms by simp
  then show "0 \<le> smoothstep p" by (simp add: smoothstep_def)
  have "1 - smoothstep p = (1 - p)\<^sup>2 * (1 + 2 * p)"
    by (simp add: smoothstep_def power2_eq_square algebra_simps)
  moreover have "0 \<le> (1 - p)\<^sup>2 * (1 + 2 * p)" using assms by simp
  ultimately show "smoothstep p \<le> 1" by linarith
qed

lemma smoothstep_mono:
  assumes "0 \<le> p" "p \<le> q" "q \<le> 1"
  shows "smoothstep p \<le> smoothstep q"
proof -
  have "smoothstep q - smoothstep p
          = (q - p) * (p * (3 - 2 * p - q) + q * (3 - 2 * q - p))"
    by (simp add: smoothstep_def power2_eq_square algebra_simps)
  moreover have "0 \<le> p * (3 - 2 * p - q)"
    using assms by (intro mult_nonneg_nonneg) auto
  moreover have "0 \<le> q * (3 - 2 * q - p)"
    using assms by (intro mult_nonneg_nonneg) auto
  ultimately have "0 \<le> smoothstep q - smoothstep p" using assms by simp
  then show ?thesis by simp
qed

subsection \<open>The two blocks of tick\<close>

lemmas hero_ops = resetVideo_def seek_def pause_def play_def safePlay_def startOther_def
  requestAnimationFrame_def called_def

lemmas tick_defs = tick_def crossfadeTrigger_def crossfadeProgress_def triggerAt_def
  fade_p_def fade_eased_def fade_t_def

lemma opacity_set_same: "opacity_of i (set_opacity i x st) = x"
  by (cases i) (simp_all add: called_def)

lemma opacity_set_other: "opacity_of i (set_opacity (flip i) x st) = opacity_of i st"
  by (cases i) (simp_all add: called_def)

lemma opacity_resetVideo: "opacity_of j (resetVideo i st) = opacity_of j st"
  by (cases i; cases j) (simp_all add: hero_ops)

lemma opacity_raf: "opacity_of j (requestAnimationFrame st) = opacity_of j st"
  by (cases j) (simp_all add: hero_ops)

lemma opacity_refs: "opacity_of j (st\<lparr>activeIdxRef := a, isFadingRef := b\<rparr>) = opacity_of j st"
  by (cases j) simp_all

lemma tick_alt:
  "tick cfg f st =
     requestAnimationFrame (crossfadeProgress cfg f (activeIdxRef st) (tick_trigger cfg f st))"
  by (simp add: tick_def tick_trigger_def Let_def)

lemma trigger_fires:
  assumes "\<not> isFadingRef st" "duration (video_of (activeIdxRef st) st) = Num d" "0 < d"
  shows "tick_trigger cfg f st =
     (if max 0 (d - fadeSeconds cfg) \<le> currentTime (video_of (activeIdxRef st) st)
      then startOther (playAllowed f) (flip (activeIdxRef st))
             (called [PerformanceNow (nowTrigger f)]
                (st\<lparr>isFadingRef := True, fadeStartRef := nowTrigger f\<rparr>))
      else st)"
  using assms by (simp add: tick_trigger_def crossfadeTrigger_def triggerAt_def)

lemma trigger_skipped: "isFadingRef st \<Longrightarrow> tick_trigger cfg f st = st"
  by (simp add: tick_trigger_def crossfadeTrigger_def)

lemma progress_opacity:
  assumes "isFadingRef st"
  shows "opacity_of i (crossfadeProgress cfg f i st)
           = 1 - fade_eased cfg (nowProgress f) (fadeStartRef st)"
    and "opacity_of (flip i) (crossfadeProgress cfg f i st)
           = fade_eased cfg (nowProgress f) (fadeStartRef st)"
  using assms
  by (simp_all add: crossfadeProgress_def Let_def opacity_refs opacity_resetVideo
      opacity_set_same opacity_set_other called_def)

lemma tick_fading_incoming:
  assumes "isFadingRef st"
  shows "opacity_of (flip (activeIdxRef st)) (tick cfg f st)
           = smoothstep (spec_p (fadeSeconds cfg) (nowProgress f) (fadeStartRef st))"
  using assms
  by (simp add: tick_alt trigger_skipped opacity_raf progress_opacity fade_eased_smoothstep)

lemma tick_stays_fading:
  assumes "isFadingRef (tick cfg f st)"
  shows "isFadingRef (tick_trigger cfg f st)"
    and "activeIdxRef (tick cfg f st) = activeIdxRef st"
    and "fadeStartRef (tick cfg f st) = fadeStartRef (tick_trigger cfg f st)"
    and "frameCallbacks (tick cfg f st) = frameCallbacks st @ [nextHandle st]"
  using assms
  by (cases "activeIdxRef st";
      simp add: tick_alt tick_trigger_def crossfadeTrigger_def crossfadeProgress_def Let_def
        hero_ops split: if_splits js_num.splits)+

subsection \<open>Browser events\<close>

lemma run_append: "run cfg (es @ es') st = run cfg es' (run cfg es st)"
  by (induction es arbitrary: st) simp_all

lemma video_upd_refs:
  "wrapA (video_upd i g st) = wrapA st" "wrapB (video_upd i g st) = wrapB st"
  "activeIdxRef (video_upd i g st) = activeIdxRef st"
  "isFadingRef (video_upd i g st) = isFadingRef st"
  "fadeStartRef (video_upd i g st) = fadeStartRef st"
  "rafRef (video_upd i g st) = rafRef st"
  "frameCallbacks (video_upd i g st) = frameCallbacks st"
  "calls (video_upd i g st) = calls st"
  by (cases i; simp)+

lemma no_frame_Cons: "no_frame (e # es) = (no_frame [e] \<and> no_frame es)"
  by (cases e) simp_all

text \<open>Events other than a display refresh leave the refs, the opacities and the queue alone.\<close>

lemma step_no_frame:
  assumes "no_frame [e]"
  shows "wrapA (browser_step cfg e st) = wrapA st \<and> wrapB (browser_step cfg e st) = wrapB st
       \<and> activeIdxRef (browser_step cfg e st) = activeIdxRef st
       \<and> isFadingRef (browser_step cfg e st) = isFadingRef st
       \<and> fadeStartRef (browser_step cfg e st) = fadeStartRef st
       \<and> frameCallbacks (browser_step cfg e st) = frameCallbacks st
       \<and> calls (browser_step cfg e st) = calls st"
  using assms by (cases e) (simp_all add: Let_def applyRate_def video_upd_refs)

lemma run_no_frame:
  "no_frame es \<Longrightarrow>
     wrapA (run cfg es st) = wrapA st \<and> wrapB (run cfg es st) = wrapB st
     \<and> activeIdxRef (run cfg es st) = activeIdxRef st
     \<and> isFadingRef (run cfg es st) = isFadingRef st
     \<and> fadeStartRef (run cfg es st) = fadeStartRef st
     \<and> frameCallbacks (run cfg es st) = frameCallbacks st
     \<and> calls (run cfg es st) = calls st"
proof (induction es arbitrary: st)
  case Nil
  show ?case by simp
next
  case (Cons e es)
  from Cons.prems have e: "no_frame [e]" and es: "no_frame es"
    using no_frame_Cons by blast+
  show ?case
    using Cons.IH [OF es, of "browser_step cfg e st"] step_no_frame [OF e, of cfg st]
    by simp
qed

text \<open>
  With no animation-frame callback pending, no event changes the refs, the opacities, the
  calls or the \<^verbatim>\<open>loop\<close> property of video A.
\<close>

lemma step_idle:
  assumes "frameCallbacks st = []"
  shows "wrapA (browser_step cfg e st) = wrapA st \<and> wrapB (browser_step cfg e st) = wrapB st
       \<and> isFadingRef (browser_step cfg e st) = isFadingRef st
       \<and> activeIdxRef (browser_step cfg e st) = activeIdxRef st
       \<and> rafRef (browser_step cfg e st) = rafRef st
       \<and> frameCallbacks (browser_step cfg e st) = []
       \<and> calls (browser_step cfg e st) = calls st
       \<and> loop (videoA (browser_step cfg e st)) = loop (videoA st)"
proof (cases e)
  case (AnimationFrame f)
  then show ?thesis using assms by simp
next
  case (LoadedMetadata i d)
  then show ?thesis using assms by (cases i) (simp_all add: Let_def applyRate_def)
next
  case (EnoughData i)
  then show ?thesis using assms by (cases i) simp_all
next
  case (Playback i x)
  then show ?thesis using assms by (cases i) simp_all
qed

lemma run_idle:
  "frameCallbacks st = [] \<Longrightarrow>
     wrapA (run cfg es st) = wrapA st \<and> wrapB (run cfg es st) = wrapB st
     \<and> isFadingRef (run cfg es st) = isFadingRef st
     \<and> activeIdxRef (run cfg es st) = activeIdxRef st
     \<and> rafRef (run cfg es st) = rafRef st
     \<and> frameCallbacks (run cfg es st) = []
     \<and> calls (run cfg es st) = calls st
     \<and> loop (videoA (run cfg es st)) = loop (videoA st)"
proof (induction es arbitrary: st)
  case Nil
  then show ?case by simp
next
  case (Cons e es)
  show ?case
    using Cons.IH [of "browser_step cfg e st"] step_idle [OF Cons.prems, of cfg e] by simp
qed

subsection \<open>The example states, evaluated\<close>

lemmas example_defs = example_playing_def example_fading_def heroEffect_def hero_rendered_def
  markup_video_def hero_settings_def applyRate_def setInitialVis_def

lemma example_playing_eval:
  "example_playing cfg x =
     \<lparr>videoA = \<lparr>duration = Num 10, currentTime = x, paused = False, loop = False,
         muted = True, playsInline = True, rate = playbackRate cfg, autoplay = True,
         canAutoplay = False\<rparr>,
      videoB = \<lparr>duration = Num 10, currentTime = 0, paused = True, loop = False,
         muted = True, playsInline = True, rate = playbackRate cfg, autoplay = True,
         canAutoplay = False\<rparr>,
      wrapA = 1, wrapB = 0, activeIdxRef = Idx0, isFadingRef = False,
      fadeStartRef = 0, rafRef = Some 1, onMetaA = True, onMetaB = True,
      frameCallbacks = [], nextHandle = 2,
      calls = [SetOpacity Idx0 1, SetOpacity Idx1 0, Pause Idx1, Seek Idx1 0,
               Play Idx0, RequestAnimationFrame 1]\<rparr>"
  by (simp add: example_defs hero_ops Let_def)

lemma example_fading_eval:
  "1 \<le> fadeSeconds cfg \<Longrightarrow> example_fading cfg =
     \<lparr>videoA = \<lparr>duration = Num 10, currentTime = 9, paused = False, loop = False,
         muted = True, playsInline = True, rate = playbackRate cfg, autoplay = True,
         canAutoplay = False\<rparr>,
      videoB = \<lparr>duration = Num 10, currentTime = 0, paused = False, loop = False,
         muted = True, playsInline = True, rate = playbackRate cfg, autoplay = True,
         canAutoplay = False\<rparr>,
      wrapA = 1, wrapB = 0, activeIdxRef = Idx0, isFadingRef = True,
      fadeStartRef = 1000, rafRef = Some 2, onMetaA = True, onMetaB = True,
      frameCallbacks = [], nextHandle = 3,
      calls = [SetOpacity Idx0 1, SetOpacity Idx1 0, Pause Idx1, Seek Idx1 0,
               Play Idx0, RequestAnimationFrame 1, PerformanceNow 1000, Pause Idx1,
               Seek Idx1 0, Play Idx1, PerformanceNow 1000, SetOpacity Idx0 1,
               SetOpacity Idx1 0, RequestAnimationFrame 2]\<rparr>"
  by (simp add: example_fading_def example_playing_eval hero_ops Let_def tick_defs)

subsection \<open>Opacity during a fade\<close>

text \<open>
  C1. An update that reaches its progress block while a fade is in progress (begun earlier
  or in this update) leaves the active layer at opacity \<open>1 - eased\<close> and the other layer
  at \<open>eased\<close>, where \<open>eased = p\<^sup>2 * (3 - 2p)\<close> and \<open>p\<close> is
  \<open>(now - fadeStartTime) / (fadeDurationSeconds * 1000)\<close> clamped to \<open>[0, 1]\<close>.
\<close>

theorem tick_fade_opacity:
  assumes "isFadingRef (tick_trigger cfg f st)" and "0 < fadeSeconds cfg"
  shows "opacity_of (activeIdxRef st) (tick cfg f st)
           = 1 - smoothstep (spec_p (fadeSeconds cfg) (nowProgress f)
                   (fadeStartRef (tick_trigger cfg f st)))
       \<and> opacity_of (flip (activeIdxRef st)) (tick cfg f st)
           = smoothstep (spec_p (fadeSeconds cfg) (nowProgress f)
               (fadeStartRef (tick_trigger cfg f st)))"
  using assms(1) by (simp add: tick_alt opacity_raf progress_opacity fade_eased_smoothstep)

theorem tick_fade_opacity_witness:
  "isFadingRef (tick_trigger hero_settings
       \<lparr>nowTrigger = 0, nowProgress = 1700, playAllowed = True\<rparr> (example_fading hero_settings))
   \<and> 0 < fadeSeconds hero_settings
   \<and> wrapA (tick hero_settings \<lparr>nowTrigger = 0, nowProgress = 1700, playAllowed = True\<rparr>
       (example_fading hero_settings)) = 1 - smoothstep (1 / 2)
   \<and> wrapB (tick hero_settings \<lparr>nowTrigger = 0, nowProgress = 1700, playAllowed = True\<rparr>
       (example_fading hero_settings)) = smoothstep (1 / 2)"
  using tick_fade_opacity [of hero_settings
      "\<lparr>nowTrigger = 0, nowProgress = 1700, playAllowed = True\<rparr>"
      "example_fading hero_settings"]
  by (simp add: example_fading_eval hero_settings_def trigger_skipped spec_p_def clamp_def)

text \<open>
  C2. In every update performed during a fade the two opacities written sum to 1 and each
  lies between 0 and 1.
\<close>

theorem tick_complementary:
  assumes "isFadingRef (tick_trigger cfg f st)" and "0 < fadeSeconds cfg"
  shows "opacity_of (activeIdxRef st) (tick cfg f st)
           + opacity_of (flip (activeIdxRef st)) (tick cfg f st) = 1
       \<and> 0 \<le> opacity_of (activeIdxRef st) (tick cfg f st)
       \<and> opacity_of (activeIdxRef st) (tick cfg f st) \<le> 1
       \<and> 0 \<le> opacity_of (flip (activeIdxRef st)) (tick cfg f st)
       \<and> opacity_of (flip (activeIdxRef st)) (tick cfg f st) \<le> 1"
proof -
  let ?p = "spec_p (fadeSeconds cfg) (nowProgress f) (fadeStartRef (tick_trigger cfg f st))"
  have r: "0 \<le> ?p" "?p \<le> 1" using spec_p_range by simp_all
  from smoothstep_range [OF r] assms(1) show ?thesis
    by (simp add: tick_alt opacity_raf progress_opacity fade_eased_smoothstep)
qed

theorem tick_complementary_witness:
  "isFadingRef (tick_trigger hero_settings
       \<lparr>nowTrigger = 0, nowProgress = 1350, playAllowed = True\<rparr> (example_fading hero_settings))
   \<and> 0 < fadeSeconds hero_settings
   \<and> wrapA (tick hero_settings \<lparr>nowTrigger = 0, nowProgress = 1350, playAllowed = True\<rparr>
         (example_fading hero_settings))
     + wrapB (tick hero_settings \<lparr>nowTrigger = 0, nowProgress = 1350, playAllowed = True\<rparr>
         (example_fading hero_settings)) = 1
   \<and> 0 \<le> wrapB (tick hero_settings \<lparr>nowTrigger = 0, nowProgress = 1350, playAllowed = True\<rparr>
         (example_fading hero_settings))
   \<and> wrapB (tick hero_settings \<lparr>nowTrigger = 0, nowProgress = 1350, playAllowed = True\<rparr>
         (example_fading hero_settings)) \<le> 1"
  using tick_complementary [of hero_settings
      "\<lparr>nowTrigger = 0, nowProgress = 1350, playAllowed = True\<rparr>"
      "example_fading hero_settings"]
  by (simp add: example_fading_eval hero_settings_def trigger_skipped)

subsection \<open>Beginning and completing a fade\<close>

text \<open>
  C3. When no fade is in progress, the active video's duration is a positive finite
  number and its position has reached \<open>max(0, duration - fadeDurationSeconds)\<close>, the
  update begins a fade: the trigger block sets the fading flag and records the clock
  reading as the fade start, and it pauses the other video, resets it to position 0 and
  calls \<^verbatim>\<open>play()\<close> on it without waiting for the outcome. Whether or not playback was
  allowed, the update goes on to its progress block and queues the next frame. The flag
  is still set at the end of the update unless the progress block of the same update
  already finds the fade complete. The witness is the case of a duration of 10 s, a fade
  of 1.4 s and a playback rate of 1, at position 8.6 s.
\<close>

theorem fade_begins:
  assumes "\<not> isFadingRef st"
    and "duration (video_of (activeIdxRef st) st) = Num d" and "0 < d"
    and "max 0 (d - fadeSeconds cfg) \<le> currentTime (video_of (activeIdxRef st) st)"
  shows "isFadingRef (tick_trigger cfg f st)
       \<and> fadeStartRef (tick_trigger cfg f st) = nowTrigger f
       \<and> calls (tick_trigger cfg f st)
           = calls st @ [PerformanceNow (nowTrigger f), Pause (flip (activeIdxRef st)),
                         Seek (flip (activeIdxRef st)) 0, Play (flip (activeIdxRef st))]
       \<and> fadeStartRef (tick cfg f st) = nowTrigger f
       \<and> currentTime (video_of (flip (activeIdxRef st)) (tick cfg f st)) = 0
       \<and> paused (video_of (flip (activeIdxRef st)) (tick cfg f st)) = (\<not> playAllowed f)
       \<and> isFadingRef (tick cfg f st)
           = (spec_p (fadeSeconds cfg) (nowProgress f) (nowTrigger f) < 1)
       \<and> frameCallbacks (tick cfg f st) = frameCallbacks st @ [nextHandle st]"
  using assms
  by (cases "activeIdxRef st")
     (simp_all add: tick_alt trigger_fires crossfadeProgress_def Let_def fade_p_clamp hero_ops
        not_le)

theorem fade_begins_witness:
  "\<not> isFadingRef (example_playing \<lparr>playbackRate = 1, fadeSeconds = 1.4\<rparr> 8.6)
   \<and> duration (videoA (example_playing \<lparr>playbackRate = 1, fadeSeconds = 1.4\<rparr> 8.6)) = Num 10
   \<and> currentTime (videoA (example_playing \<lparr>playbackRate = 1, fadeSeconds = 1.4\<rparr> 8.6)) = 8.6
   \<and> isFadingRef (tick \<lparr>playbackRate = 1, fadeSeconds = 1.4\<rparr>
         \<lparr>nowTrigger = 5000, nowProgress = 5000, playAllowed = True\<rparr>
         (example_playing \<lparr>playbackRate = 1, fadeSeconds = 1.4\<rparr> 8.6))
   \<and> fadeStartRef (tick \<lparr>playbackRate = 1, fadeSeconds = 1.4\<rparr>
         \<lparr>nowTrigger = 5000, nowProgress = 5000, playAllowed = True\<rparr>
         (example_playing \<lparr>playbackRate = 1, fadeSeconds = 1.4\<rparr> 8.6)) = 5000
   \<and> currentTime (videoB (tick \<lparr>playbackRate = 1, fadeSeconds = 1.4\<rparr>
         \<lparr>nowTrigger = 5000, nowProgress = 5000, playAllowed = True\<rparr>
         (example_playing \<lparr>playbackRate = 1, fadeSeconds = 1.4\<rparr> 8.6))) = 0
   \<and> \<not> paused (videoB (tick \<lparr>playbackRate = 1, fadeSeconds = 1.4\<rparr>
         \<lparr>nowTrigger = 5000, nowProgress = 5000, playAllowed = True\<rparr>
         (example_playing \<lparr>playbackRate = 1, fadeSeconds = 1.4\<rparr> 8.6)))"
  using fade_begins [of "example_playing \<lparr>playbackRate = 1, fadeSeconds = 1.4\<rparr> 8.6" 10
      "\<lparr>playbackRate = 1, fadeSeconds = 1.4\<rparr>"
      "\<lparr>nowTrigger = 5000, nowProgress = 5000, playAllowed = True\<rparr>"]
  by (simp add: example_playing_eval spec_p_def clamp_def)

text \<open>
  C4. When the clamped fraction \<open>p\<close> reaches 1, the same update pauses the active video
  and resets it to position 0, flips the active index and clears the fading flag.
\<close>

theorem tick_role_swap:
  assumes "isFadingRef (tick_trigger cfg f st)" and "0 < fadeSeconds cfg"
    and "1 \<le> spec_p (fadeSeconds cfg) (nowProgress f) (fadeStartRef (tick_trigger cfg f st))"
  shows "paused (video_of (activeIdxRef st) (tick cfg f st))
       \<and> currentTime (video_of (activeIdxRef st) (tick cfg f st)) = 0
       \<and> activeIdxRef (tick cfg f st) = flip (activeIdxRef st)
       \<and> \<not> isFadingRef (tick cfg f st)"
  using assms(1,3)
  by (cases "activeIdxRef st")
     (simp_all add: tick_alt crossfadeProgress_def Let_def fade_p_clamp hero_ops)

theorem tick_role_swap_witness:
  "isFadingRef (tick_trigger hero_settings
       \<lparr>nowTrigger = 0, nowProgress = 2400, playAllowed = True\<rparr> (example_fading hero_settings))
   \<and> 0 < fadeSeconds hero_settings
   \<and> 1 \<le> spec_p (fadeSeconds hero_settings) 2400 1000
   \<and> paused (videoA (tick hero_settings \<lparr>nowTrigger = 0, nowProgress = 2400, playAllowed = True\<rparr>
         (example_fading hero_settings)))
   \<and> currentTime (videoA (tick hero_settings
         \<lparr>nowTrigger = 0, nowProgress = 2400, playAllowed = True\<rparr>
         (example_fading hero_settings))) = 0
   \<and> activeIdxRef (tick hero_settings \<lparr>nowTrigger = 0, nowProgress = 2400, playAllowed = True\<rparr>
         (example_fading hero_settings)) = Idx1
   \<and> \<not> isFadingRef (tick hero_settings \<lparr>nowTrigger = 0, nowProgress = 2400, playAllowed = True\<rparr>
         (example_fading hero_settings))"
  using tick_role_swap [of hero_settings
      "\<lparr>nowTrigger = 0, nowProgress = 2400, playAllowed = True\<rparr>"
      "example_fading hero_settings"]
  by (simp add: example_fading_eval hero_settings_def trigger_skipped spec_p_def clamp_def)

text \<open>
  C5. The trigger point is \<open>max(0, duration - fadeDurationSeconds)\<close>, never negative, and
  0 for a duration of 1 s and a fade of 1.4 s; an update of a component that is not fading
  and whose active video has a positive finite duration begins a fade exactly when the
  playback position has reached that point.
\<close>

theorem trigger_point_clamped:
  assumes "\<not> isFadingRef st"
    and "duration (video_of (activeIdxRef st) st) = Num d" and "0 < d"
  shows "triggerAt cfg d = spec_triggerPoint d (fadeSeconds cfg)
       \<and> triggerAt cfg d = max 0 (d - fadeSeconds cfg)
       \<and> 0 \<le> triggerAt cfg d
       \<and> triggerAt (cfg\<lparr>fadeSeconds := 1.4\<rparr>) 1 = 0
       \<and> isFadingRef (tick_trigger cfg f st)
           = (max 0 (d - fadeSeconds cfg) \<le> currentTime (video_of (activeIdxRef st) st))"
  using assms
  by (cases "activeIdxRef st")
     (simp_all add: trigger_fires triggerAt_def spec_triggerPoint_def hero_ops)

theorem trigger_point_clamped_witness:
  "\<not> isFadingRef ((example_playing hero_settings 0)
        \<lparr>videoA := (videoA (example_playing hero_settings 0))\<lparr>duration := Num 1\<rparr>\<rparr>)
   \<and> triggerAt hero_settings 1 = 0
   \<and> spec_triggerPoint 1 1.4 = 0
   \<and> isFadingRef (tick_trigger hero_settings
        \<lparr>nowTrigger = 1000, nowProgress = 1000, playAllowed = True\<rparr>
        ((example_playing hero_settings 0)
           \<lparr>videoA := (videoA (example_playing hero_settings 0))\<lparr>duration := Num 1\<rparr>\<rparr>))"
  using trigger_point_clamped [of
      "(example_playing hero_settings 0)
         \<lparr>videoA := (videoA (example_playing hero_settings 0))\<lparr>duration := Num 1\<rparr>\<rparr>"
      1 hero_settings "\<lparr>nowTrigger = 1000, nowProgress = 1000, playAllowed = True\<rparr>"]
  by (simp add: example_playing_eval hero_settings_def)

subsection \<open>Progress across frames\<close>

text \<open>
  C6. Take an update that leaves a fade in progress, any browser events other than a
  display refresh after it, and then the next display refresh, whose clock reading is not
  smaller. The opacity of the incoming layer (the one that is not active during the fade)
  after the second update is at least what it was after the first, and at most 1.
\<close>

theorem incoming_opacity_monotone:
  assumes "0 < fadeSeconds cfg"
    and "frameCallbacks st = []"
    and "isFadingRef (tick cfg f st)"
    and "no_frame es"
    and "nowProgress f \<le> nowProgress f'"
  shows "opacity_of (flip (activeIdxRef st)) (tick cfg f st)
           \<le> opacity_of (flip (activeIdxRef st))
                (run cfg (es @ [AnimationFrame f']) (tick cfg f st))
       \<and> opacity_of (flip (activeIdxRef st))
           (run cfg (es @ [AnimationFrame f']) (tick cfg f st)) \<le> 1"
proof -
  let ?i = "activeIdxRef st"
  let ?st1 = "tick cfg f st"
  let ?s = "fadeStartRef (tick_trigger cfg f st)"
  let ?st2 = "run cfg es ?st1"
  let ?st3 = "?st2\<lparr>frameCallbacks := []\<rparr>"
  note t = tick_stays_fading [OF assms(3)]
  have first: "opacity_of (flip ?i) ?st1
                 = smoothstep (spec_p (fadeSeconds cfg) (nowProgress f) ?s)"
    using t(1) by (simp add: tick_alt opacity_raf progress_opacity fade_eased_smoothstep)
  note r = run_no_frame [OF assms(4), of cfg ?st1]
  have cb: "frameCallbacks ?st2 = [nextHandle st]"
    using r t(4) assms(2) by simp
  have second_state: "run cfg (es @ [AnimationFrame f']) ?st1 = tick cfg f' ?st3"
    by (simp add: run_append cb)
  have f3: "isFadingRef ?st3" "activeIdxRef ?st3 = ?i" "fadeStartRef ?st3 = ?s"
    using r t assms(3) by simp_all
  have second: "opacity_of (flip ?i) (tick cfg f' ?st3)
                  = smoothstep (spec_p (fadeSeconds cfg) (nowProgress f') ?s)"
    using tick_fading_incoming [OF f3(1), of cfg f'] f3(2,3) by simp
  have "smoothstep (spec_p (fadeSeconds cfg) (nowProgress f) ?s)
          \<le> smoothstep (spec_p (fadeSeconds cfg) (nowProgress f') ?s)"
    using spec_p_range spec_p_mono [OF assms(1,5)] by (intro smoothstep_mono) simp_all
  moreover have "smoothstep (spec_p (fadeSeconds cfg) (nowProgress f') ?s) \<le> 1"
    using spec_p_range by (intro smoothstep_range) simp_all
  ultimately show ?thesis by (simp add: first second second_state)
qed

theorem incoming_opacity_monotone_witness:
  "0 < fadeSeconds hero_settings
   \<and> frameCallbacks (example_fading hero_settings) = []
   \<and> isFadingRef (tick hero_settings \<lparr>nowTrigger = 0, nowProgress = 1350, playAllowed = True\<rparr>
        (example_fading hero_settings))
   \<and> no_frame [Playback Idx0 9.2, Playback Idx1 0.2]
   \<and> (1350::real) \<le> 1700
   \<and> wrapB (tick hero_settings \<lparr>nowTrigger = 0, nowProgress = 1350, playAllowed = True\<rparr>
        (example_fading hero_settings))
      \<le> wrapB (run hero_settings
           ([Playback Idx0 9.2, Playback Idx1 0.2]
            @ [AnimationFrame \<lparr>nowTrigger = 0, nowProgress = 1700, playAllowed = True\<rparr>])
           (tick hero_settings \<lparr>nowTrigger = 0, nowProgress = 1350, playAllowed = True\<rparr>
              (example_fading hero_settings)))"
  using incoming_opacity_monotone [of hero_settings "example_fading hero_settings"
      "\<lparr>nowTrigger = 0, nowProgress = 1350, playAllowed = True\<rparr>"
      "[Playback Idx0 9.2, Playback Idx1 0.2]"
      "\<lparr>nowTrigger = 0, nowProgress = 1700, playAllowed = True\<rparr>"]
  by (simp add: example_fading_eval hero_settings_def tick_defs hero_ops Let_def)

subsection \<open>Reduced motion\<close>

text \<open>
  What the reduced-motion branch does guarantee, from any state with no callback pending
  and for every later sequence of browser events: wrapper A stays at opacity 1 and wrapper
  B at 0, video A keeps \<^verbatim>\<open>loop\<close> set, the fading flag never changes, no animation
  frame is ever requested, and the component's only calls are the two opacity writes and
  \<^verbatim>\<open>play()\<close> on video A.
\<close>

lemma reduced_motion_lifetime:
  assumes "frameCallbacks st = []"
  shows "wrapA (run cfg es (heroEffect cfg True True allowed st)) = 1
       \<and> wrapB (run cfg es (heroEffect cfg True True allowed st)) = 0
       \<and> loop (videoA (run cfg es (heroEffect cfg True True allowed st)))
       \<and> isFadingRef (run cfg es (heroEffect cfg True True allowed st)) = isFadingRef st
       \<and> rafRef (run cfg es (heroEffect cfg True True allowed st)) = rafRef st
       \<and> frameCallbacks (run cfg es (heroEffect cfg True True allowed st)) = []
       \<and> calls (run cfg es (heroEffect cfg True True allowed st))
           = calls st @ [SetOpacity Idx0 1, SetOpacity Idx1 0, Play Idx0]"
proof -
  have "frameCallbacks (heroEffect cfg True True allowed st) = []"
    using assms by (simp add: heroEffect_def Let_def hero_ops)
  from run_idle [OF this, of cfg es] show ?thesis
    by (simp add: heroEffect_def Let_def hero_ops)
qed

text \<open>
  C7. With reduced motion the effect leaves video B as the markup made it: not paused by
  the component, with the \<^verbatim>\<open>autoPlay\<close> attribute and the can-autoplay flag set. When the
  browser has enough data, video B starts playing, so the second slot is started. Without
  reduced motion the effect has paused video B, and the same event leaves it paused.
\<close>

theorem reduced_motion_video_b_starts:
  "paused (videoB (heroEffect hero_settings True True True hero_rendered))
   \<and> \<not> paused (videoB (run hero_settings [EnoughData Idx1]
            (heroEffect hero_settings True True True hero_rendered)))
   \<and> paused (videoB (run hero_settings [EnoughData Idx1]
            (heroEffect hero_settings False True True hero_rendered)))"
  by (simp add: example_defs hero_ops Let_def)

subsection \<open>Order of the two blocks\<close>

text \<open>
  C8, amended. In an update that triggers a fade, the calls of the trigger block come
  first and the progress block follows in the same update: it reads the clock again and
  writes both opacities from that reading, so the first progress read of a fade is in the
  update that triggers it. The progress it shows is 0 when the clock has not advanced
  between the two readings.
\<close>

theorem trigger_then_progress:
  assumes "\<not> isFadingRef st"
    and "duration (video_of (activeIdxRef st) st) = Num d" and "0 < d"
    and "max 0 (d - fadeSeconds cfg) \<le> currentTime (video_of (activeIdxRef st) st)"
    and "0 < fadeSeconds cfg"
  shows "calls (tick cfg f st)
           = calls st
             @ [PerformanceNow (nowTrigger f), Pause (flip (activeIdxRef st)),
                Seek (flip (activeIdxRef st)) 0, Play (flip (activeIdxRef st))]
             @ [PerformanceNow (nowProgress f),
                SetOpacity (activeIdxRef st)
                  (1 - smoothstep (spec_p (fadeSeconds cfg) (nowProgress f) (nowTrigger f))),
                SetOpacity (flip (activeIdxRef st))
                  (smoothstep (spec_p (fadeSeconds cfg) (nowProgress f) (nowTrigger f)))]
             @ (if 1 \<le> spec_p (fadeSeconds cfg) (nowProgress f) (nowTrigger f)
                then [Pause (activeIdxRef st), Seek (activeIdxRef st) 0] else [])
             @ [RequestAnimationFrame (nextHandle st)]
       \<and> opacity_of (flip (activeIdxRef st)) (tick cfg f st)
           = smoothstep (spec_p (fadeSeconds cfg) (nowProgress f) (nowTrigger f))
       \<and> smoothstep (spec_p (fadeSeconds cfg) (nowTrigger f) (nowTrigger f)) = 0"
  using assms
  by (cases "activeIdxRef st")
     (simp_all add: tick_alt trigger_fires crossfadeProgress_def Let_def fade_p_clamp
        fade_eased_smoothstep hero_ops spec_p_def clamp_def smoothstep_def)

theorem trigger_then_progress_witness:
  "\<not> isFadingRef (example_playing hero_settings 9)
   \<and> calls (tick hero_settings \<lparr>nowTrigger = 1000, nowProgress = 1700, playAllowed = True\<rparr>
        (example_playing hero_settings 9))
      = calls (example_playing hero_settings 9)
        @ [PerformanceNow 1000, Pause Idx1, Seek Idx1 0, Play Idx1,
           PerformanceNow 1700, SetOpacity Idx0 (1 / 2), SetOpacity Idx1 (1 / 2),
           RequestAnimationFrame 2]"
  using trigger_then_progress [of "example_playing hero_settings 9" 10 hero_settings
      "\<lparr>nowTrigger = 1000, nowProgress = 1700, playAllowed = True\<rparr>"]
  by (simp add: example_playing_eval hero_settings_def spec_p_def clamp_def smoothstep_def
      power2_eq_square)

text \<open>
  C8 as stated fails: the update that triggers the fade reads the clock a second time and
  writes the progress (here 0) to both layers itself, before the next frame is requested.
\<close>

theorem progress_read_in_triggering_update:
  "\<not> isFadingRef (example_playing hero_settings 9)
   \<and> isFadingRef (tick hero_settings \<lparr>nowTrigger = 1000, nowProgress = 1000, playAllowed = True\<rparr>
        (example_playing hero_settings 9))
   \<and> calls (tick hero_settings \<lparr>nowTrigger = 1000, nowProgress = 1000, playAllowed = True\<rparr>
        (example_playing hero_settings 9))
      = calls (example_playing hero_settings 9)
        @ [PerformanceNow 1000, Pause Idx1, Seek Idx1 0, Play Idx1,
           PerformanceNow 1000, SetOpacity Idx0 1, SetOpacity Idx1 0,
           RequestAnimationFrame 2]"
  by (simp add: example_playing_eval hero_settings_def tick_defs hero_ops Let_def)

section \<open>Properties of the parallax progress\<close>

text \<open>
  C9, amended. For every element rectangle and every viewport height other than 0, both
  calculators compute \<open>clamp((viewportCenter - elementCenter) / viewportHeight, -1, 1)\<close>,
  a value between -1 and 1.
\<close>

theorem parallax_progress:
  assumes "vh \<noteq> 0"
  shows "useScrollParallax_updateParallax True vh r = Some (Num (spec_progress vh r))
       \<and> useParallaxSection_updateParallax True vh r = Some (Num (spec_progress vh r))
       \<and> - 1 \<le> spec_progress vh r \<and> spec_progress vh r \<le> 1"
  using assms
  by (simp add: useScrollParallax_updateParallax_def useParallaxSection_updateParallax_def
      Let_def js_div_def spec_progress_def clamp_def min_def max_def)

theorem parallax_progress_witness:
  "(800::real) \<noteq> 0
   \<and> useScrollParallax_updateParallax True 800 \<lparr>rect_top = 100, rect_height = 200\<rparr>
       = Some (Num (1 / 4))
   \<and> useParallaxSection_updateParallax True 800 \<lparr>rect_top = 100, rect_height = 200\<rparr>
       = Some (Num (1 / 4))"
  using parallax_progress [of 800 "\<lparr>rect_top = 100, rect_height = 200\<rparr>"]
  by (simp add: spec_progress_def clamp_def)

text \<open>
  C9 as stated fails for a viewport of height 0 and an element whose centre is at 0: the
  division is \<^verbatim>\<open>0 / 0\<close> and the progress is \<^verbatim>\<open>NaN\<close>, not a value in \<open>[-1, 1]\<close>.
\<close>

theorem parallax_nan:
  "useScrollParallax_updateParallax True 0 \<lparr>rect_top = - 100, rect_height = 200\<rparr> = Some NaN
   \<and> useParallaxSection_updateParallax True 0 \<lparr>rect_top = - 100, rect_height = 200\<rparr> = Some NaN
   \<and> \<not> js_between (- 1) 1 NaN"
  by (simp add: useScrollParallax_updateParallax_def useParallaxSection_updateParallax_def
      Let_def js_div_def)

section \<open>Properties of the lead submission\<close>

text \<open>
  C10. For every payload \<^verbatim>\<open>sendToKommo\<close> logs, waits for its timeout of 1500 ms and
  fulfils its promise with \<^verbatim>\<open>true\<close>; it never fulfils it with \<^verbatim>\<open>false\<close> and never
  rejects it.
\<close>

theorem sendToKommo_true:
  "snd (sendToKommo d) = Fulfilled True
   \<and> snd (sendToKommo d) \<noteq> Fulfilled False
   \<and> (\<forall>e. snd (sendToKommo d) \<noteq> Rejected e)
   \<and> fst (sendToKommo d)
       = [ConsoleLog ''Sending data to Kommo CRM integration...'' d, SetTimeout 1500]"
  by (simp add: sendToKommo_def sendToKommo_try_def)

end
